theory Spec2Isabelle
  imports Main
begin

section \<open>Mutation resolvers of the storefront backend\<close>

text \<open>
  A shallow embedding of \<^verbatim>\<open>src/sick-fits/backend/src/resolvers/Mutation.js\<close>.
  Every resolver is a function from its arguments, the request context and the world
  (database tables, response cookies, mail handed to the transport, charges handed to
  the payment gateway) to a result and the world afterwards. A \<^verbatim>\<open>throw\<close>, a rejected
  promise and a read of a property of \<^verbatim>\<open>null\<close> or \<^verbatim>\<open>undefined\<close> are error
  values; the world that comes with an error is the world at the moment of the throw,
  so an effect that happened before the throw stays visible.

  JavaScript numbers are modelled as integers: the resolvers only add and multiply
  integer fields (prices, quantities, millisecond time stamps), which is exact for
  doubles as long as the magnitudes stay below \<open>2 ^ 53\<close>. Strings are byte lists, and
  \<^verbatim>\<open>toLowerCase\<close> is modelled on the ASCII letters. Console output is not modelled.
\<close>

subsection \<open>Errors\<close>

type_synonym ident = string

datatype error =
    Error string       \<comment> \<open>\<^verbatim>\<open>throw new Error(message)\<close> in a resolver\<close>
  | TypeError string   \<comment> \<open>reading the named property of \<^verbatim>\<open>null\<close> or \<^verbatim>\<open>undefined\<close>\<close>
  | Rejected string    \<comment> \<open>a promise rejected by a collaborator (database, mail, gateway)\<close>

text \<open>
  The source throws plain \<^verbatim>\<open>Error\<close> objects that differ in their message only. The
  specification (section 7) sorts them into three kinds; \<open>kind_of\<close> assigns every
  message thrown in the source the kind the specification gives that failure.
\<close>

datatype error_kind = AuthError | NotFoundError | ValidationError

definition starts_with :: "string \<Rightarrow> string \<Rightarrow> bool" where
  "starts_with p s = (take (length p) s = p)"

fun kind_of :: "error \<Rightarrow> error_kind option" where
  "kind_of (Error m) =
     (if m = ''You must be logged in to do that!'' \<or> m = ''You don't have permission to do that!''
         \<or> m = ''Invalid Password!'' \<or> m = ''This token is either invalid or expired!''
         \<or> m = ''You must be logged in!'' \<or> m = ''You must be signed in soon''
         \<or> m = ''Cheatin huhhhh'' \<or> m = ''You must be signed in to complete this order.''
         \<or> m = ''You do not have sufficient permissions''
      then Some AuthError
      else if starts_with ''No such user found for email '' m \<or> m = ''No CartItem Found!''
      then Some NotFoundError
      else if m = ''Yo Passwords don't match!'' then Some ValidationError
      else None)"
| "kind_of (TypeError p) = None"
| "kind_of (Rejected m) = None"

subsection \<open>Data model\<close>

record user =
  user_id :: ident
  user_name :: string
  user_email :: string
  user_password :: string
  user_resetToken :: "string option"
  user_resetTokenExpiry :: "int option"
  user_permissions :: "string list"

record item =
  item_id :: ident
  item_title :: string
  item_description :: string
  item_image :: string
  item_largeImage :: string
  item_price :: int
  item_user :: ident

record cartItem =
  cartItem_id :: ident
  cartItem_quantity :: int
  cartItem_item :: ident
  cartItem_user :: ident

record database =
  users :: "user list"
  items :: "item list"
  cartItems :: "cartItem list"

text \<open>The request context: \<^verbatim>\<open>ctx.request.userId\<close> and \<^verbatim>\<open>ctx.request.user\<close>, either of
  which is \<^verbatim>\<open>undefined\<close> on a request that carries no valid session token.\<close>

record request =
  userId :: "ident option"
  user :: "user option"

datatype cookie_op = SetCookie string string bool int | ClearCookie string

record mail =
  mail_from :: string
  mail_to :: string
  mail_subject :: string
  mail_html :: string

record mail_info =
  accepted :: "string list"
  rejected :: "string list"

record charge =
  amount :: int
  currency :: string
  source :: string

record world =
  db :: database
  cookies :: "cookie_op list"
  outbox :: "mail list"
  charges :: "charge list"

text \<open>
  The collaborators the resolvers call and the values they read from the process
  (\<^verbatim>\<open>bcryptjs\<close>, \<^verbatim>\<open>jsonwebtoken\<close>, \<^verbatim>\<open>crypto.randomBytes\<close>,
  \<^verbatim>\<open>Date.now\<close>, \<^verbatim>\<open>process.env\<close>, the mail module, the gateway client) are
  parameters of the model. \<open>sendMail\<close> and \<open>charges_create\<close> return \<open>Inl\<close> when the
  promise they stand for is rejected.
\<close>

record env =
  bcrypt_hash :: "string \<Rightarrow> nat \<Rightarrow> string"
  bcrypt_compare :: "string \<Rightarrow> string \<Rightarrow> bool"
  jwt_sign :: "ident \<Rightarrow> string \<Rightarrow> string"
  APP_SECRET :: string
  FRONTEND_URL :: string
  Date_now :: int
  randomBytes_hex :: "nat \<Rightarrow> string"
  makeANiceEmail :: "string \<Rightarrow> string"
  sendMail :: "mail \<Rightarrow> error + mail_info"
  charges_create :: "charge \<Rightarrow> error + unit"

subsection \<open>JavaScript helpers\<close>




text \<open>The one-year cookie: \<^verbatim>\<open>1000 * 60 * 60 * 24 * 365\<close> milliseconds.\<close>

definition one_year :: int where
  "one_year = 1000 * 60 * 60 * 24 * 365"

definition token_cookie :: "env \<Rightarrow> ident \<Rightarrow> cookie_op" where
  "token_cookie e uid = SetCookie ''token'' (jwt_sign e uid (APP_SECRET e)) True one_year"

subsection \<open>The database client\<close>

text \<open>
  Modelled from the spec: the database client and the datamodel are not under
  \<^verbatim>\<open>src/\<close>. Following sections 3 and 6 of the specification, the client offers find-one,
  find-many, create, update and delete per entity; a find-one, an update and a delete
  select by a unique field (\<open>id\<close>, or the user's unique \<open>email\<close>); an update or a delete
  of a row that does not exist is rejected, as is the creation of a user whose email
  is taken or of a cart item connected to a user or an item that does not exist; a
  new row gets an identifier no row of its table has; a new cart item that is given
  no quantity has quantity 1.
\<close>

fun update_where :: "('a \<Rightarrow> bool) \<Rightarrow> ('a \<Rightarrow> 'a) \<Rightarrow> 'a list \<Rightarrow> 'a list" where
  "update_where P f [] = []"
| "update_where P f (x # xs) = (if P x then f x # xs else x # update_where P f xs)"

fun delete_where :: "('a \<Rightarrow> bool) \<Rightarrow> 'a list \<Rightarrow> 'a list" where
  "delete_where P [] = []"
| "delete_where P (x # xs) = (if P x then xs else x # delete_where P xs)"

definition fresh_id :: "ident list \<Rightarrow> ident" where
  "fresh_id ids = replicate (Suc (foldr (\<lambda>i n. max (length i) n) ids 0)) (CHR ''c'')"

definition query_user_email :: "database \<Rightarrow> string \<Rightarrow> user option" where
  "query_user_email d e = find (\<lambda>u. user_email u = e) (users d)"

definition query_user_id :: "database \<Rightarrow> ident \<Rightarrow> user option" where
  "query_user_id d i = find (\<lambda>u. user_id u = i) (users d)"

definition expiry_gte :: "int \<Rightarrow> user \<Rightarrow> bool" where
  "expiry_gte t u = (case user_resetTokenExpiry u of None \<Rightarrow> False | Some x \<Rightarrow> t \<le> x)"

definition query_users_reset :: "database \<Rightarrow> string \<Rightarrow> int \<Rightarrow> user list" where
  "query_users_reset d tok t =
     filter (\<lambda>u. user_resetToken u = Some tok \<and> expiry_gte t u) (users d)"

definition query_item :: "database \<Rightarrow> ident \<Rightarrow> item option" where
  "query_item d i = find (\<lambda>x. item_id x = i) (items d)"

definition query_cartItem :: "database \<Rightarrow> ident \<Rightarrow> cartItem option" where
  "query_cartItem d i = find (\<lambda>c. cartItem_id c = i) (cartItems d)"

definition query_cartItems :: "database \<Rightarrow> ident \<Rightarrow> ident \<Rightarrow> cartItem list" where
  "query_cartItems d uid iid =
     filter (\<lambda>c. cartItem_user c = uid \<and> cartItem_item c = iid) (cartItems d)"

record user_create =
  create_name :: string
  create_email :: string
  create_password :: string
  create_permissions :: "string list"

definition mutation_createUser :: "user_create \<Rightarrow> database \<Rightarrow> error + user \<times> database" where
  "mutation_createUser data d =
     (if create_email data \<in> set (map user_email (users d))
      then Inl (Rejected ''A unique constraint would be violated on User'')
      else
        let u = \<lparr>user_id = fresh_id (map user_id (users d)),
                 user_name = create_name data,
                 user_email = create_email data,
                 user_password = create_password data,
                 user_resetToken = None,
                 user_resetTokenExpiry = None,
                 user_permissions = create_permissions data\<rparr>
        in Inr (u, d\<lparr>users := users d @ [u]\<rparr>))"

definition mutation_updateUser ::
  "(user \<Rightarrow> bool) \<Rightarrow> (user \<Rightarrow> user) \<Rightarrow> database \<Rightarrow> error + user \<times> database" where
  "mutation_updateUser wh data d =
     (case find wh (users d) of
        None \<Rightarrow> Inl (Rejected ''No Node for the model User found'')
      | Some u \<Rightarrow> Inr (data u, d\<lparr>users := update_where wh data (users d)\<rparr>))"

definition mutation_updateItem ::
  "ident \<Rightarrow> (item \<Rightarrow> item) \<Rightarrow> database \<Rightarrow> error + item \<times> database" where
  "mutation_updateItem i data d =
     (case find (\<lambda>x. item_id x = i) (items d) of
        None \<Rightarrow> Inl (Rejected ''No Node for the model Item found'')
      | Some x \<Rightarrow> Inr (data x, d\<lparr>items := update_where (\<lambda>x. item_id x = i) data (items d)\<rparr>))"

definition mutation_deleteItem :: "ident \<Rightarrow> database \<Rightarrow> error + item \<times> database" where
  "mutation_deleteItem i d =
     (case find (\<lambda>x. item_id x = i) (items d) of
        None \<Rightarrow> Inl (Rejected ''No Node for the model Item found'')
      | Some x \<Rightarrow> Inr (x, d\<lparr>items := delete_where (\<lambda>x. item_id x = i) (items d)\<rparr>))"

definition mutation_updateCartItem ::
  "ident \<Rightarrow> (cartItem \<Rightarrow> cartItem) \<Rightarrow> database \<Rightarrow> error + cartItem \<times> database" where
  "mutation_updateCartItem i data d =
     (case find (\<lambda>c. cartItem_id c = i) (cartItems d) of
        None \<Rightarrow> Inl (Rejected ''No Node for the model CartItem found'')
      | Some c \<Rightarrow>
          Inr (data c, d\<lparr>cartItems := update_where (\<lambda>c. cartItem_id c = i) data (cartItems d)\<rparr>))"

definition mutation_createCartItem :: "ident \<Rightarrow> ident \<Rightarrow> database \<Rightarrow> error + cartItem \<times> database" where
  "mutation_createCartItem uid iid d =
     (if query_user_id d uid = None \<or> query_item d iid = None
      then Inl (Rejected ''No Node for the model found to connect'')
      else
        let c = \<lparr>cartItem_id = fresh_id (map cartItem_id (cartItems d)),
                 cartItem_quantity = 1,
                 cartItem_item = iid,
                 cartItem_user = uid\<rparr>
        in Inr (c, d\<lparr>cartItems := cartItems d @ [c]\<rparr>))"

definition mutation_deleteCartItem :: "ident \<Rightarrow> database \<Rightarrow> error + cartItem \<times> database" where
  "mutation_deleteCartItem i d =
     (case find (\<lambda>c. cartItem_id c = i) (cartItems d) of
        None \<Rightarrow> Inl (Rejected ''No Node for the model CartItem found'')
      | Some c \<Rightarrow> Inr (c, d\<lparr>cartItems := delete_where (\<lambda>c. cartItem_id c = i) (cartItems d)\<rparr>))"

text \<open>The cart of a user as the query of \<^verbatim>\<open>createOrder\<close> selects it: every cart item
  of the user with its quantity and its item, \<^verbatim>\<open>null\<close> when the item is gone.\<close>

record cart_line =
  line_id :: ident
  line_quantity :: int
  line_item :: "item option"

definition query_user_cart :: "database \<Rightarrow> ident \<Rightarrow> cart_line list" where
  "query_user_cart d uid =
     map (\<lambda>c. \<lparr>line_id = cartItem_id c, line_quantity = cartItem_quantity c,
               line_item = query_item d (cartItem_item c)\<rparr>)
         (filter (\<lambda>c. cartItem_user c = uid) (cartItems d))"

subsection \<open>Authorization helper\<close>

text \<open>
  Modelled from the spec: \<^verbatim>\<open>hasPermission\<close> of \<^verbatim>\<open>../utils\<close> is not under
  \<^verbatim>\<open>src/\<close>. Section 4.2 of the specification: it passes if the user's permission set
  intersects the required permissions and fails with an \<open>AuthError\<close> otherwise; it is a
  guard, called for its failure only.
\<close>

definition hasPermission :: "user \<Rightarrow> string list \<Rightarrow> error + unit" where
  "hasPermission u permissionsNeeded =
     (if list_ex (\<lambda>p. p \<in> set permissionsNeeded) (user_permissions u) then Inr ()
      else Inl (Error ''You do not have sufficient permissions''))"

subsection \<open>Item mutations\<close>

text \<open>The arguments of \<^verbatim>\<open>updateItem\<close>: the \<open>id\<close> and the fields the caller provides;
  a field that is not provided is \<open>None\<close>.\<close>

record updateItem_args =
  args_id :: ident
  args_title :: "string option"
  args_description :: "string option"
  args_image :: "string option"
  args_largeImage :: "string option"
  args_price :: "int option"

record item_update =
  upd_title :: "string option"
  upd_description :: "string option"
  upd_image :: "string option"
  upd_largeImage :: "string option"
  upd_price :: "int option"

text \<open>\<^verbatim>\<open>const updates = { ...args }; delete updates.id\<close>\<close>

definition copy_without_id :: "updateItem_args \<Rightarrow> item_update" where
  "copy_without_id args =
     \<lparr>upd_title = args_title args, upd_description = args_description args,
      upd_image = args_image args, upd_largeImage = args_largeImage args,
      upd_price = args_price args\<rparr>"

definition set_fields :: "item_update \<Rightarrow> item \<Rightarrow> item" where
  "set_fields updates x =
     x\<lparr>item_title := (case upd_title updates of None \<Rightarrow> item_title x | Some v \<Rightarrow> v),
       item_description := (case upd_description updates of None \<Rightarrow> item_description x | Some v \<Rightarrow> v),
       item_image := (case upd_image updates of None \<Rightarrow> item_image x | Some v \<Rightarrow> v),
       item_largeImage := (case upd_largeImage updates of None \<Rightarrow> item_largeImage x | Some v \<Rightarrow> v),
       item_price := (case upd_price updates of None \<Rightarrow> item_price x | Some v \<Rightarrow> v)\<rparr>"

definition updateItem :: "updateItem_args \<Rightarrow> request \<Rightarrow> world \<Rightarrow> (error + item) \<times> world" where
  "updateItem args ctx w =
     (let updates = copy_without_id args in
      case mutation_updateItem (args_id args) (set_fields updates) (db w) of
        Inl err \<Rightarrow> (Inl err, w)
      | Inr (x, d) \<Rightarrow> (Inr x, w\<lparr>db := d\<rparr>))"

definition deleteItem :: "ident \<Rightarrow> request \<Rightarrow> world \<Rightarrow> (error + item) \<times> world" where
  "deleteItem arg_id ctx w =
     (case query_item (db w) arg_id of
        None \<Rightarrow> (Inl (TypeError ''user''), w)
      | Some x \<Rightarrow>
          let ownsItem = (Some (item_user x) = userId ctx) in
          (case user ctx of
             None \<Rightarrow> (Inl (TypeError ''permissions''), w)
           | Some u \<Rightarrow>
               let hasPermissions =
                     list_ex (\<lambda>permission. permission \<in> set [''ADMIN'', ''ITEMDELETE''])
                       (user_permissions u)
               in if \<not> ownsItem \<and> \<not> hasPermissions
                  then (Inl (Error ''You don't have permission to do that!''), w)
                  else (case mutation_deleteItem arg_id (db w) of
                          Inl err \<Rightarrow> (Inl err, w)
                        | Inr (y, d) \<Rightarrow> (Inr y, w\<lparr>db := d\<rparr>))))"

subsection \<open>Identity and session\<close>



definition signin :: "env \<Rightarrow> string \<Rightarrow> string \<Rightarrow> world \<Rightarrow> (error + user) \<times> world" where
  "signin e arg_email arg_password w =
     (case query_user_email (db w) arg_email of
        None \<Rightarrow> (Inl (Error (''No such user found for email '' @ arg_email)), w)
      | Some u \<Rightarrow>
          if \<not> bcrypt_compare e arg_password (user_password u)
          then (Inl (Error ''Invalid Password!''), w)
          else (Inr u, w\<lparr>cookies := cookies w @ [token_cookie e (user_id u)]\<rparr>))"

text \<open>The body of the reset mail, before \<^verbatim>\<open>makeANiceEmail\<close> wraps it.\<close>

definition reset_mail_text :: "env \<Rightarrow> string \<Rightarrow> string" where
  "reset_mail_text e resetToken =
     ''Your Password Reset Token is here!'' @ [CHR 0x0A, CHR 0x0A, CHR 0x0A]
     @ ''        <a href='' @ [CHR 0x22] @ FRONTEND_URL e @ ''/reset?resetToken='' @ resetToken
     @ [CHR 0x22] @ ''>'' @ [CHR 0x0A] @ ''          Click Here to Reset'' @ [CHR 0x0A]
     @ ''        </a>''"

definition reset_mail :: "env \<Rightarrow> user \<Rightarrow> string \<Rightarrow> mail" where
  "reset_mail e u resetToken =
     \<lparr>mail_from = ''zain.fathoni@gmail.com'', mail_to = user_email u,
      mail_subject = ''Your Password Reset Token'',
      mail_html = makeANiceEmail e (reset_mail_text e resetToken)\<rparr>"

datatype message = Message string

definition requestReset :: "env \<Rightarrow> string \<Rightarrow> world \<Rightarrow> (error + message) \<times> world" where
  "requestReset e arg_email w =
     (case query_user_email (db w) arg_email of
        None \<Rightarrow> (Inl (Error (''No such user found for email '' @ arg_email)), w)
      | Some u \<Rightarrow>
          let resetToken = randomBytes_hex e 20;
              resetTokenExpiry = Date_now e + 3600000
          in (case mutation_updateUser (\<lambda>x. user_email x = arg_email)
                     (\<lambda>x. x\<lparr>user_resetToken := Some resetToken,
                             user_resetTokenExpiry := Some resetTokenExpiry\<rparr>) (db w) of
                Inl err \<Rightarrow> (Inl err, w)
              | Inr (res, d) \<Rightarrow>
                  let m = reset_mail e u resetToken;
                      w' = w\<lparr>db := d, outbox := outbox w @ [m]\<rparr>
                  in (case sendMail e m of
                        Inl err \<Rightarrow> (Inl err, w')
                      | Inr mailRes \<Rightarrow> (Inr (Message ''Thanks!''), w'))))"


subsection \<open>Permissions\<close>

text \<open>\<^verbatim>\<open>hasPermission(currentUser, ...)\<close> reads the permissions of \<^verbatim>\<open>currentUser\<close>;
  when the query found no user, \<^verbatim>\<open>currentUser\<close> is \<^verbatim>\<open>null\<close> and the read is a
  type error.\<close>

definition updatePermissions ::
  "ident \<Rightarrow> string list \<Rightarrow> request \<Rightarrow> world \<Rightarrow> (error + user) \<times> world" where
  "updatePermissions arg_userId arg_permissions ctx w =
     (let notLoggedIn = (Inl (Error ''You must be logged in!''), w) in
      case userId ctx of
        None \<Rightarrow> notLoggedIn
      | Some uid \<Rightarrow>
          if uid = [] then notLoggedIn
          else
            (case query_user_id (db w) uid of
               None \<Rightarrow> (Inl (TypeError ''permissions''), w)
             | Some currentUser \<Rightarrow>
                 (case hasPermission currentUser [''ADMIN'', ''PERMISSIONUPDATE''] of
                    Inl err \<Rightarrow> (Inl err, w)
                  | Inr _ \<Rightarrow>
                      (case mutation_updateUser (\<lambda>x. user_id x = arg_userId)
                              (\<lambda>x. x\<lparr>user_permissions := arg_permissions\<rparr>) (db w) of
                         Inl err \<Rightarrow> (Inl err, w)
                       | Inr (u, d) \<Rightarrow> (Inr u, w\<lparr>db := d\<rparr>)))))"

subsection \<open>Cart\<close>

definition addToCart :: "ident \<Rightarrow> request \<Rightarrow> world \<Rightarrow> (error + cartItem) \<times> world" where
  "addToCart arg_id ctx w =
     (let notSignedIn = (Inl (Error ''You must be signed in soon''), w) in
      case userId ctx of
        None \<Rightarrow> notSignedIn
      | Some uid \<Rightarrow>
          if uid = [] then notSignedIn
          else
            (case query_cartItems (db w) uid arg_id of
               existingCartItem # _ \<Rightarrow>
                 (case mutation_updateCartItem (cartItem_id existingCartItem)
                         (\<lambda>c. c\<lparr>cartItem_quantity := cartItem_quantity existingCartItem + 1\<rparr>)
                         (db w) of
                    Inl err \<Rightarrow> (Inl err, w)
                  | Inr (c, d) \<Rightarrow> (Inr c, w\<lparr>db := d\<rparr>))
             | [] \<Rightarrow>
                 (case mutation_createCartItem uid arg_id (db w) of
                    Inl err \<Rightarrow> (Inl err, w)
                  | Inr (c, d) \<Rightarrow> (Inr c, w\<lparr>db := d\<rparr>))))"

definition removeFromCart :: "ident \<Rightarrow> request \<Rightarrow> world \<Rightarrow> (error + cartItem) \<times> world" where
  "removeFromCart arg_id ctx w =
     (case query_cartItem (db w) arg_id of
        None \<Rightarrow> (Inl (Error ''No CartItem Found!''), w)
      | Some c \<Rightarrow>
          if Some (cartItem_user c) \<noteq> userId ctx
          then (Inl (Error ''Cheatin huhhhh''), w)
          else (case mutation_deleteCartItem arg_id (db w) of
                  Inl err \<Rightarrow> (Inl err, w)
                | Inr (y, d) \<Rightarrow> (Inr y, w\<lparr>db := d\<rparr>)))"

subsection \<open>Checkout\<close>




subsection \<open>A small store\<close>

text \<open>A concrete environment and world on which the theorems below are instantiated:
  two users, one of them an administrator, two items, and a cart of two lines.\<close>

definition example_env :: env where
  "example_env =
     \<lparr>bcrypt_hash = (\<lambda>p r. ''$2a$10$'' @ p),
      bcrypt_compare = (\<lambda>p h. h = ''$2a$10$'' @ p),
      jwt_sign = (\<lambda>i s. s @ ''.'' @ i),
      APP_SECRET = ''secret'',
      FRONTEND_URL = ''http://localhost:7777'',
      Date_now = 9000000,
      randomBytes_hex = (\<lambda>n. replicate (2 * n) (CHR ''a'')),
      makeANiceEmail = (\<lambda>t. t),
      sendMail = (\<lambda>m. Inr \<lparr>accepted = [mail_to m], rejected = []\<rparr>),
      charges_create = (\<lambda>c. Inr ())\<rparr>"

definition example_env_mail_down :: env where
  "example_env_mail_down =
     example_env\<lparr>sendMail := (\<lambda>m. Inl (Rejected ''connect ECONNREFUSED''))\<rparr>"

definition ann :: user where
  "ann = \<lparr>user_id = ''u1'', user_name = ''Ann'', user_email = ''ann@example.com'',
          user_password = ''$2a$10$tulip'', user_resetToken = Some ''f00d'',
          user_resetTokenExpiry = Some 8000000, user_permissions = [''USER'']\<rparr>"

definition bob :: user where
  "bob = \<lparr>user_id = ''u2'', user_name = ''Bob'', user_email = ''bob@example.com'',
          user_password = ''$2a$10$rose'', user_resetToken = None,
          user_resetTokenExpiry = None,
          user_permissions = [''USER'', ''ADMIN'', ''ITEMDELETE'', ''PERMISSIONUPDATE'']\<rparr>"

definition item_A :: item where
  "item_A = \<lparr>item_id = ''A'', item_title = ''Boots'', item_description = ''Leather'',
             item_image = ''a.jpg'', item_largeImage = ''a-large.jpg'', item_price = 500,
             item_user = ''u1''\<rparr>"

definition item_B :: item where
  "item_B = \<lparr>item_id = ''B'', item_title = ''Scarf'', item_description = ''Wool'',
             item_image = ''b.jpg'', item_largeImage = ''b-large.jpg'', item_price = 300,
             item_user = ''u1''\<rparr>"

definition example_db :: database where
  "example_db =
     \<lparr>users = [ann, bob], items = [item_A, item_B],
      cartItems =
        [\<lparr>cartItem_id = ''k1'', cartItem_quantity = 2, cartItem_item = ''A'', cartItem_user = ''u1''\<rparr>,
         \<lparr>cartItem_id = ''k2'', cartItem_quantity = 1, cartItem_item = ''B'', cartItem_user = ''u1''\<rparr>]\<rparr>"

definition example_world :: world where
  "example_world = \<lparr>db = example_db, cookies = [], outbox = [], charges = []\<rparr>"

definition ann_request :: request where
  "ann_request = \<lparr>userId = Some ''u1'', user = Some ann\<rparr>"

definition bob_request :: request where
  "bob_request = \<lparr>userId = Some ''u2'', user = Some bob\<rparr>"

definition anonymous_request :: request where
  "anonymous_request = \<lparr>userId = None, user = None\<rparr>"

section \<open>Lemmas about the tables\<close>

lemma length_fresh_id: "i \<in> set ids \<Longrightarrow> length i < length (fresh_id ids)"
  by (induction ids) (auto simp: fresh_id_def)

lemma fresh_id_notin: "fresh_id ids \<notin> set ids"
  using length_fresh_id by blast

lemma update_where_append_new:
  "\<forall>x \<in> set xs. \<not> P x \<Longrightarrow> P y \<Longrightarrow> update_where P f (xs @ [y]) = xs @ [f y]"
  by (induction xs) auto

lemma find_append_new:
  "\<forall>x \<in> set xs. \<not> P x \<Longrightarrow> P y \<Longrightarrow> find P (xs @ [y]) = Some y"
  by (induction xs) auto

lemma find_Some_mem: "find P xs = Some x \<Longrightarrow> x \<in> set xs \<and> P x"
  by (induction xs) (auto split: if_splits)

lemma find_update_where:
  "find P xs = Some x \<Longrightarrow> P (f x) \<Longrightarrow> find P (update_where P f xs) = Some (f x)"
  by (induction xs) (auto split: if_splits)



lemma filter_update_where:
  "(\<And>x. P x \<Longrightarrow> P (f x)) \<Longrightarrow>
     filter (\<lambda>x. \<not> P x) (update_where P f xs) = filter (\<lambda>x. \<not> P x) xs"
  by (induction xs) auto

lemmas example_defs =
  example_env_def example_env_mail_down_def ann_def bob_def item_A_def item_B_def
  example_db_def example_world_def ann_request_def bob_request_def anonymous_request_def

lemmas query_defs =
  query_user_email_def query_user_id_def query_users_reset_def expiry_gte_def query_item_def
  query_cartItem_def query_cartItems_def query_user_cart_def

lemmas mutation_defs =
  mutation_createUser_def mutation_updateUser_def mutation_updateItem_def
  mutation_deleteItem_def mutation_updateCartItem_def mutation_createCartItem_def
  mutation_deleteCartItem_def fresh_id_def

section \<open>The cart\<close>

text \<open>
  Claim C1. A signed-in caller whose user row exists adds an existing item that is not
  yet in the cart twice in a row: the first call creates a cart item of quantity 1 and
  appends it to the table, the second call returns that same row with quantity 2, and
  afterwards the table holds exactly one row for the (user, item) pair, of quantity 2;
  no second row was added.
\<close>

theorem addToCart_twice:
  assumes auth: "userId ctx = Some uid" "uid \<noteq> []"
    and ex: "query_user_id (db w) uid \<noteq> None" "query_item (db w) iid \<noteq> None"
    and absent: "query_cartItems (db w) uid iid = []"
  shows "\<exists>c w1 w2.
           addToCart iid ctx w = (Inr c, w1) \<and>
           addToCart iid ctx w1 = (Inr (c\<lparr>cartItem_quantity := 2\<rparr>), w2) \<and>
           cartItem_quantity c = 1 \<and> cartItem_user c = uid \<and> cartItem_item c = iid \<and>
           cartItems (db w1) = cartItems (db w) @ [c] \<and>
           cartItems (db w2) = cartItems (db w) @ [c\<lparr>cartItem_quantity := 2\<rparr>] \<and>
           query_cartItems (db w2) uid iid = [c\<lparr>cartItem_quantity := 2\<rparr>]"
proof -
  define c where "c = \<lparr>cartItem_id = fresh_id (map cartItem_id (cartItems (db w))),
     cartItem_quantity = 1, cartItem_item = iid, cartItem_user = uid\<rparr>"
  define w1 where "w1 = w\<lparr>db := (db w)\<lparr>cartItems := cartItems (db w) @ [c]\<rparr>\<rparr>"
  define w2 where
    "w2 = w\<lparr>db := (db w)\<lparr>cartItems := cartItems (db w) @ [c\<lparr>cartItem_quantity := 2\<rparr>]\<rparr>\<rparr>"
  have first: "addToCart iid ctx w = (Inr c, w1)"
    using auth ex absent
    by (simp add: addToCart_def mutation_createCartItem_def c_def w1_def Let_def)
  have new: "\<forall>x \<in> set (cartItems (db w)). \<not> cartItem_id x = cartItem_id c"
  proof
    fix x assume "x \<in> set (cartItems (db w))"
    then have "cartItem_id x \<in> set (map cartItem_id (cartItems (db w)))" by simp
    with fresh_id_notin [of "map cartItem_id (cartItems (db w))"]
    show "\<not> cartItem_id x = cartItem_id c" by (auto simp: c_def)
  qed
  have q1: "query_cartItems (db w1) uid iid = [c]"
    using absent by (simp add: query_cartItems_def w1_def c_def)
  have second: "addToCart iid ctx w1 = (Inr (c\<lparr>cartItem_quantity := 2\<rparr>), w2)"
    using auth q1 new
    by (simp add: addToCart_def mutation_updateCartItem_def find_append_new
        update_where_append_new w1_def w2_def c_def)
  have q2: "query_cartItems (db w2) uid iid = [c\<lparr>cartItem_quantity := 2\<rparr>]"
    using absent by (simp add: query_cartItems_def w2_def c_def)
  show ?thesis
    using first second q2 by (auto simp: c_def w1_def w2_def)
qed

theorem addToCart_twice_witness:
  "userId bob_request = Some ''u2'' \<and>
   query_cartItems (db example_world) ''u2'' ''A'' = [] \<and>
   (\<exists>c w1 w2.
      addToCart ''A'' bob_request example_world = (Inr c, w1) \<and>
      addToCart ''A'' bob_request w1 = (Inr (c\<lparr>cartItem_quantity := 2\<rparr>), w2) \<and>
      cartItem_quantity c = 1 \<and>
      query_cartItems (db w2) ''u2'' ''A'' = [c\<lparr>cartItem_quantity := 2\<rparr>] \<and>
      length (cartItems (db w2)) = 3)"
proof -
  have h1: "userId bob_request = Some ''u2''" by (simp add: bob_request_def)
  have h2: "''u2'' \<noteq> []" by simp
  have h3: "query_user_id (db example_world) ''u2'' \<noteq> None"
    by (simp add: example_defs query_defs)
  have h4: "query_item (db example_world) ''A'' \<noteq> None"
    by (simp add: example_defs query_defs)
  have h5: "query_cartItems (db example_world) ''u2'' ''A'' = []"
    by (simp add: example_defs query_defs)
  obtain c w1 w2 where
    r: "addToCart ''A'' bob_request example_world = (Inr c, w1)"
       "addToCart ''A'' bob_request w1 = (Inr (c\<lparr>cartItem_quantity := 2\<rparr>), w2)"
       "cartItem_quantity c = 1"
       "cartItems (db w2) = cartItems (db example_world) @ [c\<lparr>cartItem_quantity := 2\<rparr>]"
       "query_cartItems (db w2) ''u2'' ''A'' = [c\<lparr>cartItem_quantity := 2\<rparr>]"
    using addToCart_twice [OF h1 h2 h3 h4 h5] by blast
  have "length (cartItems (db w2)) = 3"
    by (simp add: r(4)) (simp add: example_defs)
  then show ?thesis using h1 h5 r by blast
qed

section \<open>Password reset\<close>






section \<open>The charge of an order\<close>




section \<open>Removing a cart item\<close>

text \<open>
  Claim C4, as amended. \<^verbatim>\<open>removeFromCart\<close> checks ownership only: a cart item that
  does not exist gives the failure the specification calls \<open>NotFoundError\<close>; a cart
  item whose owner is the caller is deleted and returned; any other caller gets the
  failure it calls \<open>AuthError\<close>, and the world is unchanged. The user record of the
  request, and with it every permission the caller holds, has no influence on the
  result.
\<close>

theorem removeFromCart_owner_only:
  "(query_cartItem (db w) cid = None \<longrightarrow>
      removeFromCart cid ctx w = (Inl (Error ''No CartItem Found!''), w)) \<and>
   kind_of (Error ''No CartItem Found!'') = Some NotFoundError \<and>
   (\<forall>c. query_cartItem (db w) cid = Some c \<and> userId ctx = Some (cartItem_user c) \<longrightarrow>
      removeFromCart cid ctx w =
        (Inr c, w\<lparr>db := (db w)\<lparr>cartItems :=
           delete_where (\<lambda>x. cartItem_id x = cid) (cartItems (db w))\<rparr>\<rparr>)) \<and>
   (\<forall>c. query_cartItem (db w) cid = Some c \<and> userId ctx \<noteq> Some (cartItem_user c) \<longrightarrow>
      removeFromCart cid ctx w = (Inl (Error ''Cheatin huhhhh''), w)) \<and>
   kind_of (Error ''Cheatin huhhhh'') = Some AuthError \<and>
   removeFromCart cid (ctx\<lparr>user := u\<rparr>) w = removeFromCart cid ctx w"
proof -
  have missing: "removeFromCart cid ctx w = (Inl (Error ''No CartItem Found!''), w)"
    if "query_cartItem (db w) cid = None"
    using that by (simp add: removeFromCart_def)
  have owner: "removeFromCart cid ctx w =
        (Inr c, w\<lparr>db := (db w)\<lparr>cartItems :=
           delete_where (\<lambda>x. cartItem_id x = cid) (cartItems (db w))\<rparr>\<rparr>)"
    if "query_cartItem (db w) cid = Some c" "userId ctx = Some (cartItem_user c)" for c
    using that
    by (simp add: removeFromCart_def mutation_deleteCartItem_def query_cartItem_def)
  have other: "removeFromCart cid ctx w = (Inl (Error ''Cheatin huhhhh''), w)"
    if "query_cartItem (db w) cid = Some c" "userId ctx \<noteq> Some (cartItem_user c)" for c
    using that by (auto simp: removeFromCart_def)
  have anyuser: "removeFromCart cid (ctx\<lparr>user := u\<rparr>) w = removeFromCart cid ctx w"
    by (simp add: removeFromCart_def split: option.splits)
  have k1: "kind_of (Error ''No CartItem Found!'') = Some NotFoundError"
    by (simp add: starts_with_def)
  have k2: "kind_of (Error ''Cheatin huhhhh'') = Some AuthError"
    by simp
  show ?thesis
    using missing owner other anyuser k1 k2 by blast
qed

text \<open>
  The claim as the specification states it (ownership or permission) fails: an
  administrator who passes the permission guard and does not own the cart item is
  turned away.
\<close>

theorem removeFromCart_counterexample:
  "query_cartItem (db example_world) ''k1'' =
     Some \<lparr>cartItem_id = ''k1'', cartItem_quantity = 2, cartItem_item = ''A'', cartItem_user = ''u1''\<rparr> \<and>
   user bob_request = Some bob \<and>
   hasPermission bob [''ADMIN'', ''ITEMDELETE''] = Inr () \<and>
   removeFromCart ''k1'' bob_request example_world = (Inl (Error ''Cheatin huhhhh''), example_world)"
  by (simp add: example_defs query_defs hasPermission_def removeFromCart_def)

theorem removeFromCart_owner_only_witness:
  "query_cartItem (db example_world) ''k1'' =
     Some \<lparr>cartItem_id = ''k1'', cartItem_quantity = 2, cartItem_item = ''A'', cartItem_user = ''u1''\<rparr> \<and>
   fst (removeFromCart ''k1'' ann_request example_world) =
     Inr \<lparr>cartItem_id = ''k1'', cartItem_quantity = 2, cartItem_item = ''A'', cartItem_user = ''u1''\<rparr> \<and>
   map cartItem_id (cartItems (db (snd (removeFromCart ''k1'' ann_request example_world)))) = [''k2''] \<and>
   fst (removeFromCart ''k1'' bob_request example_world) = Inl (Error ''Cheatin huhhhh'') \<and>
   fst (removeFromCart ''k9'' ann_request example_world) = Inl (Error ''No CartItem Found!'')"
proof -
  have q: "query_cartItem (db example_world) ''k1'' =
     Some \<lparr>cartItem_id = ''k1'', cartItem_quantity = 2, cartItem_item = ''A'', cartItem_user = ''u1''\<rparr>"
    by (simp add: example_defs query_defs)
  have q9: "query_cartItem (db example_world) ''k9'' = None"
    by (simp add: example_defs query_defs)
  have ua: "userId ann_request = Some ''u1''" by (simp add: ann_request_def)
  have ub: "userId bob_request = Some ''u2''" by (simp add: bob_request_def)
  have r1: "removeFromCart ''k1'' ann_request example_world =
     (Inr \<lparr>cartItem_id = ''k1'', cartItem_quantity = 2, cartItem_item = ''A'', cartItem_user = ''u1''\<rparr>,
      example_world\<lparr>db := (db example_world)\<lparr>cartItems :=
           delete_where (\<lambda>x. cartItem_id x = ''k1'') (cartItems (db example_world))\<rparr>\<rparr>)"
    using removeFromCart_owner_only [of example_world "''k1''" ann_request] q ua by simp
  have r2: "fst (removeFromCart ''k1'' bob_request example_world) = Inl (Error ''Cheatin huhhhh'')"
    using removeFromCart_owner_only [of example_world "''k1''" bob_request] q ub by simp
  have r3: "fst (removeFromCart ''k9'' ann_request example_world) = Inl (Error ''No CartItem Found!'')"
    using removeFromCart_owner_only [of example_world "''k9''" ann_request] q9 by simp
  have d: "map cartItem_id (cartItems (db (snd (removeFromCart ''k1'' ann_request example_world)))) = [''k2'']"
    by (simp add: r1) (simp add: example_world_def example_db_def)
  show ?thesis using q r1 r2 r3 d by simp
qed

section \<open>Signing up\<close>





section \<open>Updating permissions\<close>

lemma hasPermission_admin_update:
  "hasPermission u [''ADMIN'', ''PERMISSIONUPDATE''] =
     (if ''ADMIN'' \<in> set (user_permissions u) \<or> ''PERMISSIONUPDATE'' \<in> set (user_permissions u)
      then Inr () else Inl (Error ''You do not have sufficient permissions''))"
  by (auto simp: hasPermission_def list_ex_iff)

text \<open>
  Claim C6. \<^verbatim>\<open>updatePermissions\<close> fails with the message the specification calls an
  \<open>AuthError\<close> when the request carries no user id, and when the caller's permissions
  contain neither \<^verbatim>\<open>ADMIN\<close> nor \<^verbatim>\<open>PERMISSIONUPDATE\<close>; a caller who holds one of
  them replaces the permissions of an existing target user by exactly the supplied
  list, whatever they were, and every other user row stays as it was; every failure
  leaves the world, and so the target's permissions, unchanged.
\<close>

theorem updatePermissions_spec:
  "(userId ctx = None \<or> userId ctx = Some [] \<longrightarrow>
      updatePermissions tid ps ctx w = (Inl (Error ''You must be logged in!''), w)) \<and>
   kind_of (Error ''You must be logged in!'') = Some AuthError \<and>
   (\<forall>uid cu. userId ctx = Some uid \<and> uid \<noteq> [] \<and> query_user_id (db w) uid = Some cu \<and>
        ''ADMIN'' \<notin> set (user_permissions cu) \<and>
        ''PERMISSIONUPDATE'' \<notin> set (user_permissions cu) \<longrightarrow>
      updatePermissions tid ps ctx w =
        (Inl (Error ''You do not have sufficient permissions''), w)) \<and>
   kind_of (Error ''You do not have sufficient permissions'') = Some AuthError \<and>
   (\<forall>uid cu t. userId ctx = Some uid \<and> uid \<noteq> [] \<and> query_user_id (db w) uid = Some cu \<and>
        (''ADMIN'' \<in> set (user_permissions cu) \<or>
         ''PERMISSIONUPDATE'' \<in> set (user_permissions cu)) \<and>
        query_user_id (db w) tid = Some t \<longrightarrow>
      updatePermissions tid ps ctx w =
        (Inr (t\<lparr>user_permissions := ps\<rparr>),
         w\<lparr>db := (db w)\<lparr>users := update_where (\<lambda>x. user_id x = tid)
                (\<lambda>x. x\<lparr>user_permissions := ps\<rparr>) (users (db w))\<rparr>\<rparr>) \<and>
      query_user_id (db (snd (updatePermissions tid ps ctx w))) tid =
        Some (t\<lparr>user_permissions := ps\<rparr>) \<and>
      filter (\<lambda>x. user_id x \<noteq> tid) (users (db (snd (updatePermissions tid ps ctx w)))) =
        filter (\<lambda>x. user_id x \<noteq> tid) (users (db w))) \<and>
   (\<forall>err w'. updatePermissions tid ps ctx w = (Inl err, w') \<longrightarrow> w' = w)"
proof -
  have none: "updatePermissions tid ps ctx w = (Inl (Error ''You must be logged in!''), w)"
    if "userId ctx = None \<or> userId ctx = Some []"
    using that by (auto simp: updatePermissions_def)
  have denied: "updatePermissions tid ps ctx w =
        (Inl (Error ''You do not have sufficient permissions''), w)"
    if "userId ctx = Some uid" "uid \<noteq> []" "query_user_id (db w) uid = Some cu"
       "''ADMIN'' \<notin> set (user_permissions cu)"
       "''PERMISSIONUPDATE'' \<notin> set (user_permissions cu)" for uid cu
    using that by (simp add: updatePermissions_def hasPermission_admin_update)
  have ok: "updatePermissions tid ps ctx w =
        (Inr (t\<lparr>user_permissions := ps\<rparr>),
         w\<lparr>db := (db w)\<lparr>users := update_where (\<lambda>x. user_id x = tid)
                (\<lambda>x. x\<lparr>user_permissions := ps\<rparr>) (users (db w))\<rparr>\<rparr>) \<and>
      query_user_id (db (snd (updatePermissions tid ps ctx w))) tid =
        Some (t\<lparr>user_permissions := ps\<rparr>) \<and>
      filter (\<lambda>x. user_id x \<noteq> tid) (users (db (snd (updatePermissions tid ps ctx w)))) =
        filter (\<lambda>x. user_id x \<noteq> tid) (users (db w))"
    if a: "userId ctx = Some uid" "uid \<noteq> []" "query_user_id (db w) uid = Some cu"
       and p: "''ADMIN'' \<in> set (user_permissions cu) \<or>
         ''PERMISSIONUPDATE'' \<in> set (user_permissions cu)"
       and t: "query_user_id (db w) tid = Some t" for uid cu t
  proof -
    have f: "find (\<lambda>x. user_id x = tid) (users (db w)) = Some t"
      using t by (simp add: query_user_id_def)
    have tid: "user_id t = tid" using find_Some_mem [OF f] by simp
    have r: "updatePermissions tid ps ctx w =
        (Inr (t\<lparr>user_permissions := ps\<rparr>),
         w\<lparr>db := (db w)\<lparr>users := update_where (\<lambda>x. user_id x = tid)
                (\<lambda>x. x\<lparr>user_permissions := ps\<rparr>) (users (db w))\<rparr>\<rparr>)"
      using a p f
      by (simp add: updatePermissions_def hasPermission_admin_update mutation_updateUser_def)
    have s: "query_user_id (db (snd (updatePermissions tid ps ctx w))) tid =
        Some (t\<lparr>user_permissions := ps\<rparr>)"
      using find_update_where [OF f, of "\<lambda>x. x\<lparr>user_permissions := ps\<rparr>"] tid
      by (simp add: r query_user_id_def)
    have o: "filter (\<lambda>x. user_id x \<noteq> tid) (users (db (snd (updatePermissions tid ps ctx w)))) =
        filter (\<lambda>x. user_id x \<noteq> tid) (users (db w))"
      using filter_update_where [of "\<lambda>x. user_id x = tid" "\<lambda>x. x\<lparr>user_permissions := ps\<rparr>"
          "users (db w)"]
      by (simp add: r)
    show ?thesis using r s o by simp
  qed
  have fail: "w' = w" if "updatePermissions tid ps ctx w = (Inl err, w')" for err w'
    using that
    by (auto simp: updatePermissions_def mutation_updateUser_def Let_def
        split: option.splits if_splits sum.splits)
  have k1: "kind_of (Error ''You must be logged in!'') = Some AuthError" by simp
  have k2: "kind_of (Error ''You do not have sufficient permissions'') = Some AuthError" by simp
  show ?thesis
    using none denied ok fail k1 k2 by blast
qed

theorem updatePermissions_spec_witness:
  "userId anonymous_request = None \<and>
   updatePermissions ''u1'' [''ITEMCREATE''] anonymous_request example_world =
     (Inl (Error ''You must be logged in!''), example_world) \<and>
   query_user_id (db example_world) ''u1'' = Some ann \<and>
   updatePermissions ''u2'' [''USER''] ann_request example_world =
     (Inl (Error ''You do not have sufficient permissions''), example_world) \<and>
   query_user_id (db example_world) ''u2'' = Some bob \<and>
   fst (updatePermissions ''u1'' [''ITEMCREATE''] bob_request example_world) =
     Inr (ann\<lparr>user_permissions := [''ITEMCREATE'']\<rparr>) \<and>
   users (db (snd (updatePermissions ''u1'' [''ITEMCREATE''] bob_request example_world))) =
     [ann\<lparr>user_permissions := [''ITEMCREATE'']\<rparr>, bob]"
proof -
  have u0: "userId anonymous_request = None" by (simp add: anonymous_request_def)
  have ua: "userId ann_request = Some ''u1''" by (simp add: ann_request_def)
  have ub: "userId bob_request = Some ''u2''" by (simp add: bob_request_def)
  have qa: "query_user_id (db example_world) ''u1'' = Some ann"
    by (simp add: example_defs query_defs)
  have qb: "query_user_id (db example_world) ''u2'' = Some bob"
    by (simp add: example_defs query_defs)
  have pa: "''ADMIN'' \<notin> set (user_permissions ann) \<and>
      ''PERMISSIONUPDATE'' \<notin> set (user_permissions ann)"
    by (simp add: ann_def)
  have pb: "''ADMIN'' \<in> set (user_permissions bob)" by (simp add: bob_def)
  have r0: "updatePermissions ''u1'' [''ITEMCREATE''] anonymous_request example_world =
     (Inl (Error ''You must be logged in!''), example_world)"
    using updatePermissions_spec [of anonymous_request "''u1''" "[''ITEMCREATE'']" example_world]
      u0 by simp
  have r1: "updatePermissions ''u2'' [''USER''] ann_request example_world =
     (Inl (Error ''You do not have sufficient permissions''), example_world)"
    using updatePermissions_spec [of ann_request "''u2''" "[''USER'']" example_world]
      ua qa pa by simp
  have r2: "updatePermissions ''u1'' [''ITEMCREATE''] bob_request example_world =
        (Inr (ann\<lparr>user_permissions := [''ITEMCREATE'']\<rparr>),
         example_world\<lparr>db := (db example_world)\<lparr>users := update_where (\<lambda>x. user_id x = ''u1'')
                (\<lambda>x. x\<lparr>user_permissions := [''ITEMCREATE'']\<rparr>) (users (db example_world))\<rparr>\<rparr>)"
    using updatePermissions_spec [of bob_request "''u1''" "[''ITEMCREATE'']" example_world]
      ub qa qb pb by simp
  have r3: "users (db (snd (updatePermissions ''u1'' [''ITEMCREATE''] bob_request example_world))) =
     [ann\<lparr>user_permissions := [''ITEMCREATE'']\<rparr>, bob]"
    by (simp add: r2) (simp add: example_world_def example_db_def ann_def bob_def)
  show ?thesis using u0 r0 qa r1 qb r2 r3 by simp
qed

section \<open>Signing in\<close>

text \<open>
  Claim C7. \<^verbatim>\<open>signin\<close> with an email no user has fails with the message the
  specification calls \<open>NotFoundError\<close>; with a known email and a password the hash
  comparison rejects it fails with the message it calls \<open>AuthError\<close>; with a password
  the comparison accepts it returns the stored user and sets the \<^verbatim>\<open>token\<close> cookie to
  the token signed for the user's id, http-only, for one year.
\<close>

theorem signin_cases:
  "(query_user_email (db w) em = None \<longrightarrow>
      signin e em pw w = (Inl (Error (''No such user found for email '' @ em)), w)) \<and>
   kind_of (Error (''No such user found for email '' @ em)) = Some NotFoundError \<and>
   (\<forall>u. query_user_email (db w) em = Some u \<and> \<not> bcrypt_compare e pw (user_password u) \<longrightarrow>
      signin e em pw w = (Inl (Error ''Invalid Password!''), w)) \<and>
   kind_of (Error ''Invalid Password!'') = Some AuthError \<and>
   (\<forall>u. query_user_email (db w) em = Some u \<and> bcrypt_compare e pw (user_password u) \<longrightarrow>
      signin e em pw w =
        (Inr u, w\<lparr>cookies := cookies w @
           [SetCookie ''token'' (jwt_sign e (user_id u) (APP_SECRET e)) True 31536000000]\<rparr>))"
proof -
  have unknown: "signin e em pw w = (Inl (Error (''No such user found for email '' @ em)), w)"
    if "query_user_email (db w) em = None"
    using that by (simp add: signin_def)
  have wrong: "signin e em pw w = (Inl (Error ''Invalid Password!''), w)"
    if "query_user_email (db w) em = Some u" "\<not> bcrypt_compare e pw (user_password u)" for u
    using that by (simp add: signin_def)
  have right: "signin e em pw w =
        (Inr u, w\<lparr>cookies := cookies w @
           [SetCookie ''token'' (jwt_sign e (user_id u) (APP_SECRET e)) True 31536000000]\<rparr>)"
    if "query_user_email (db w) em = Some u" "bcrypt_compare e pw (user_password u)" for u
    using that by (simp add: signin_def token_cookie_def one_year_def)
  have k1: "kind_of (Error (''No such user found for email '' @ em)) = Some NotFoundError"
    by (simp add: starts_with_def)
  have k2: "kind_of (Error ''Invalid Password!'') = Some AuthError"
    by simp
  show ?thesis
    using unknown wrong right k1 k2 by blast
qed

theorem signin_cases_witness:
  "query_user_email (db example_world) ''zoe@example.com'' = None \<and>
   fst (signin example_env ''zoe@example.com'' ''tulip'' example_world) =
     Inl (Error ''No such user found for email zoe@example.com'') \<and>
   query_user_email (db example_world) ''ann@example.com'' = Some ann \<and>
   fst (signin example_env ''ann@example.com'' ''rose'' example_world) =
     Inl (Error ''Invalid Password!'') \<and>
   signin example_env ''ann@example.com'' ''tulip'' example_world =
     (Inr ann, example_world\<lparr>cookies :=
        [SetCookie ''token'' ''secret.u1'' True 31536000000]\<rparr>)"
proof -
  have q0: "query_user_email (db example_world) ''zoe@example.com'' = None"
    by (simp add: example_defs query_defs)
  have q1: "query_user_email (db example_world) ''ann@example.com'' = Some ann"
    by (simp add: example_defs query_defs)
  have bad: "\<not> bcrypt_compare example_env ''rose'' (user_password ann)"
    by (simp add: example_defs)
  have good: "bcrypt_compare example_env ''tulip'' (user_password ann)"
    by (simp add: example_defs)
  have r0: "fst (signin example_env ''zoe@example.com'' ''tulip'' example_world) =
     Inl (Error ''No such user found for email zoe@example.com'')"
    using signin_cases [of example_world "''zoe@example.com''" example_env "''tulip''"] q0
    by simp
  have r1: "fst (signin example_env ''ann@example.com'' ''rose'' example_world) =
     Inl (Error ''Invalid Password!'')"
    using signin_cases [of example_world "''ann@example.com''" example_env "''rose''"] q1 bad
    by simp
  have r2: "signin example_env ''ann@example.com'' ''tulip'' example_world =
     (Inr ann, example_world\<lparr>cookies :=
        [SetCookie ''token'' ''secret.u1'' True 31536000000]\<rparr>)"
    using signin_cases [of example_world "''ann@example.com''" example_env "''tulip''"] q1 good
    by (simp add: example_defs)
  show ?thesis using q0 q1 r0 r1 r2 by simp
qed

section \<open>Updating an item\<close>

text \<open>
  Claim C8. The result of \<^verbatim>\<open>updateItem\<close> does not depend on the request context, so no
  caller is turned away. For an existing item it returns and stores the item with
  each provided field replaced and each other field, the id and the owner among them,
  as it was; the other items, the users and the cart items are unchanged.
\<close>

theorem updateItem_spec:
  "updateItem args ctx w = updateItem args ctx' w \<and>
   (query_item (db w) (args_id args) = None \<longrightarrow>
      updateItem args ctx w = (Inl (Rejected ''No Node for the model Item found''), w)) \<and>
   (\<forall>x. query_item (db w) (args_id args) = Some x \<longrightarrow>
      (\<exists>y w'. updateItem args ctx w = (Inr y, w') \<and>
         item_id y = args_id args \<and> item_id y = item_id x \<and> item_user y = item_user x \<and>
         item_title y = (case args_title args of None \<Rightarrow> item_title x | Some v \<Rightarrow> v) \<and>
         item_description y =
           (case args_description args of None \<Rightarrow> item_description x | Some v \<Rightarrow> v) \<and>
         item_image y = (case args_image args of None \<Rightarrow> item_image x | Some v \<Rightarrow> v) \<and>
         item_largeImage y =
           (case args_largeImage args of None \<Rightarrow> item_largeImage x | Some v \<Rightarrow> v) \<and>
         item_price y = (case args_price args of None \<Rightarrow> item_price x | Some v \<Rightarrow> v) \<and>
         query_item (db w') (args_id args) = Some y \<and>
         filter (\<lambda>i. item_id i \<noteq> args_id args) (items (db w')) =
           filter (\<lambda>i. item_id i \<noteq> args_id args) (items (db w)) \<and>
         users (db w') = users (db w) \<and> cartItems (db w') = cartItems (db w)))"
proof -
  have indep: "updateItem args ctx w = updateItem args ctx' w"
    by (simp add: updateItem_def)
  have missing: "updateItem args ctx w = (Inl (Rejected ''No Node for the model Item found''), w)"
    if "query_item (db w) (args_id args) = None"
    using that by (simp add: updateItem_def mutation_updateItem_def query_item_def Let_def)
  have found: "\<exists>y w'. updateItem args ctx w = (Inr y, w') \<and>
         item_id y = args_id args \<and> item_id y = item_id x \<and> item_user y = item_user x \<and>
         item_title y = (case args_title args of None \<Rightarrow> item_title x | Some v \<Rightarrow> v) \<and>
         item_description y =
           (case args_description args of None \<Rightarrow> item_description x | Some v \<Rightarrow> v) \<and>
         item_image y = (case args_image args of None \<Rightarrow> item_image x | Some v \<Rightarrow> v) \<and>
         item_largeImage y =
           (case args_largeImage args of None \<Rightarrow> item_largeImage x | Some v \<Rightarrow> v) \<and>
         item_price y = (case args_price args of None \<Rightarrow> item_price x | Some v \<Rightarrow> v) \<and>
         query_item (db w') (args_id args) = Some y \<and>
         filter (\<lambda>i. item_id i \<noteq> args_id args) (items (db w')) =
           filter (\<lambda>i. item_id i \<noteq> args_id args) (items (db w)) \<and>
         users (db w') = users (db w) \<and> cartItems (db w') = cartItems (db w)"
    if q: "query_item (db w) (args_id args) = Some x" for x
  proof -
    let ?P = "\<lambda>i. item_id i = args_id args"
    let ?f = "set_fields (copy_without_id args)"
    have f: "find ?P (items (db w)) = Some x"
      using q by (simp add: query_item_def)
    have xid: "item_id x = args_id args" using find_Some_mem [OF f] by simp
    have keep: "item_id (?f i) = item_id i" for i
      by (simp add: set_fields_def)
    have r: "updateItem args ctx w =
        (Inr (?f x), w\<lparr>db := (db w)\<lparr>items := update_where ?P ?f (items (db w))\<rparr>\<rparr>)"
      using f by (simp add: updateItem_def mutation_updateItem_def Let_def)
    have s: "find ?P (update_where ?P ?f (items (db w))) = Some (?f x)"
      using find_update_where [OF f, of ?f] xid keep by simp
    have o: "filter (\<lambda>i. \<not> ?P i) (update_where ?P ?f (items (db w))) =
        filter (\<lambda>i. \<not> ?P i) (items (db w))"
      using filter_update_where [of ?P ?f "items (db w)"] keep by simp
    show ?thesis
      using r s o xid
      by (simp add: query_item_def) (simp add: set_fields_def copy_without_id_def)
  qed
  show ?thesis using indep missing found by blast
qed

theorem updateItem_spec_witness:
  "query_item (db example_world) ''A'' = Some item_A \<and>
   fst (updateItem \<lparr>args_id = ''A'', args_title = None, args_description = None,
          args_image = None, args_largeImage = None, args_price = Some 1\<rparr>
        anonymous_request example_world) = Inr (item_A\<lparr>item_price := 1\<rparr>) \<and>
   items (db (snd (updateItem \<lparr>args_id = ''A'', args_title = None, args_description = None,
          args_image = None, args_largeImage = None, args_price = Some 1\<rparr>
        anonymous_request example_world))) = [item_A\<lparr>item_price := 1\<rparr>, item_B]"
proof -
  let ?args = "\<lparr>args_id = ''A'', args_title = None, args_description = None,
          args_image = None, args_largeImage = None, args_price = Some 1\<rparr>"
  have q: "query_item (db example_world) (args_id ?args) = Some item_A"
    by (simp add: example_defs query_defs)
  obtain y w' where r: "updateItem ?args anonymous_request example_world = (Inr y, w')"
    and y: "item_id y = item_id item_A" "item_user y = item_user item_A"
      "item_title y = item_title item_A" "item_description y = item_description item_A"
      "item_image y = item_image item_A" "item_largeImage y = item_largeImage item_A"
      "item_price y = 1"
    using updateItem_spec [of ?args anonymous_request example_world anonymous_request] q
    by auto
  have "y = item_A\<lparr>item_price := 1\<rparr>"
    using y by (cases y) (simp add: item_A_def)
  then have a: "fst (updateItem ?args anonymous_request example_world)
      = Inr (item_A\<lparr>item_price := 1\<rparr>)"
    using r by simp
  have b: "items (db (snd (updateItem ?args anonymous_request example_world))) =
      [item_A\<lparr>item_price := 1\<rparr>, item_B]"
    by (simp add: updateItem_def mutation_updateItem_def example_world_def example_db_def
        item_A_def item_B_def set_fields_def copy_without_id_def Let_def)
  show ?thesis using q a b by simp
qed

section \<open>Requesting a password reset\<close>

text \<open>
  Claim C9, as amended. For an existing user \<^verbatim>\<open>requestReset\<close> stores the reset token and
  the expiry one hour ahead and hands the mail to the transport. When \<^verbatim>\<open>sendMail\<close>
  resolves, whatever delivery result it resolves with, the acknowledgement is
  returned; when \<^verbatim>\<open>sendMail\<close> rejects, its error is the result. The token and the
  expiry are stored in both cases.
\<close>

theorem requestReset_mail_outcome:
  assumes q: "query_user_email (db w) em = Some u"
  shows "(\<forall>info. sendMail e (reset_mail e u (randomBytes_hex e 20)) = Inr info \<longrightarrow>
            fst (requestReset e em w) = Inr (Message ''Thanks!'')) \<and>
         (\<forall>err. sendMail e (reset_mail e u (randomBytes_hex e 20)) = Inl err \<longrightarrow>
            fst (requestReset e em w) = Inl err) \<and>
         query_user_email (db (snd (requestReset e em w))) em =
           Some (u\<lparr>user_resetToken := Some (randomBytes_hex e 20),
                   user_resetTokenExpiry := Some (Date_now e + 3600000)\<rparr>) \<and>
         outbox (snd (requestReset e em w)) =
           outbox w @ [reset_mail e u (randomBytes_hex e 20)]"
proof -
  let ?P = "\<lambda>x. user_email x = em"
  let ?f = "\<lambda>x. x\<lparr>user_resetToken := Some (randomBytes_hex e 20),
                   user_resetTokenExpiry := Some (Date_now e + 3600000)\<rparr>"
  let ?m = "reset_mail e u (randomBytes_hex e 20)"
  let ?w' = "w\<lparr>db := (db w)\<lparr>users := update_where ?P ?f (users (db w))\<rparr>,
               outbox := outbox w @ [?m]\<rparr>"
  have f: "find ?P (users (db w)) = Some u"
    using q by (simp add: query_user_email_def)
  have em: "user_email u = em" using find_Some_mem [OF f] by simp
  have r: "requestReset e em w =
      (case sendMail e ?m of Inl err \<Rightarrow> (Inl err, ?w')
       | Inr mailRes \<Rightarrow> (Inr (Message ''Thanks!''), ?w'))"
    using q f by (simp add: requestReset_def mutation_updateUser_def Let_def)
  have w': "snd (requestReset e em w) = ?w'"
    by (simp add: r split: sum.splits)
  have s: "find ?P (update_where ?P ?f (users (db w))) = Some (?f u)"
    using find_update_where [OF f, of ?f] em by simp
  have res: "fst (requestReset e em w) =
      (case sendMail e ?m of Inl err \<Rightarrow> Inl err | Inr mailRes \<Rightarrow> Inr (Message ''Thanks!''))"
    by (simp add: r split: sum.splits)
  have stored: "query_user_email (db (snd (requestReset e em w))) em = Some (?f u)"
    using s by (simp add: w' query_user_email_def)
  have sent: "outbox (snd (requestReset e em w)) = outbox w @ [?m]"
    by (simp add: w')
  show ?thesis
    using stored sent by (simp add: res)
qed

text \<open>
  The claim as the specification states it (the acknowledgement whatever happens to the
  mail) fails: with a transport that refuses the connection the caller gets the
  transport's error.
\<close>

theorem requestReset_counterexample:
  "query_user_email (db example_world) ''ann@example.com'' = Some ann \<and>
   fst (requestReset example_env ''ann@example.com'' example_world) = Inr (Message ''Thanks!'') \<and>
   fst (requestReset example_env_mail_down ''ann@example.com'' example_world)
     = Inl (Rejected ''connect ECONNREFUSED'')"
  by (simp add: requestReset_def mutation_updateUser_def Let_def example_defs query_defs)

theorem requestReset_mail_outcome_witness:
  "query_user_email (db example_world) ''ann@example.com'' = Some ann \<and>
   fst (requestReset example_env ''ann@example.com'' example_world) = Inr (Message ''Thanks!'') \<and>
   fst (requestReset example_env_mail_down ''ann@example.com'' example_world)
     = Inl (Rejected ''connect ECONNREFUSED'') \<and>
   query_user_email (db (snd (requestReset example_env_mail_down ''ann@example.com'' example_world)))
       ''ann@example.com'' =
     Some (ann\<lparr>user_resetToken := Some (replicate 40 (CHR ''a'')),
               user_resetTokenExpiry := Some 12600000\<rparr>)"
proof -
  have q: "query_user_email (db example_world) ''ann@example.com'' = Some ann"
    by (simp add: example_defs query_defs)
  have up: "\<exists>info. sendMail example_env
      (reset_mail example_env ann (randomBytes_hex example_env 20)) = Inr info"
    by (simp add: example_env_def)
  have down: "sendMail example_env_mail_down
      (reset_mail example_env_mail_down ann (randomBytes_hex example_env_mail_down 20))
        = Inl (Rejected ''connect ECONNREFUSED'')"
    by (simp add: example_env_mail_down_def)
  have tok: "randomBytes_hex example_env_mail_down 20 = replicate 40 (CHR ''a'')"
    "Date_now example_env_mail_down + 3600000 = 12600000"
    by (simp_all add: example_env_mail_down_def example_env_def)
  have a: "fst (requestReset example_env ''ann@example.com'' example_world)
      = Inr (Message ''Thanks!'')"
    using requestReset_mail_outcome [OF q, of example_env] up by blast
  have b: "fst (requestReset example_env_mail_down ''ann@example.com'' example_world)
     = Inl (Rejected ''connect ECONNREFUSED'')"
    using requestReset_mail_outcome [OF q, of example_env_mail_down] down by blast
  have c: "query_user_email
       (db (snd (requestReset example_env_mail_down ''ann@example.com'' example_world)))
       ''ann@example.com'' =
     Some (ann\<lparr>user_resetToken := Some (replicate 40 (CHR ''a'')),
               user_resetTokenExpiry := Some 12600000\<rparr>)"
    using requestReset_mail_outcome [OF q, of example_env_mail_down] tok by simp
  show ?thesis using q a b c by simp
qed

section \<open>Deleting an item\<close>

text \<open>
  Claim C10. \<^verbatim>\<open>deleteItem\<close> reads the permissions of the request's user before it
  tests anything: on a request with no user attached it fails with a type error, for
  an existing item with the one of reading \<^verbatim>\<open>permissions\<close>, whoever owns the item,
  and never with the permission error the specification calls \<open>AuthError\<close>; the
  world is unchanged.
\<close>

theorem deleteItem_unauthenticated:
  assumes nouser: "user ctx = None"
  shows "(\<forall>x. query_item (db w) arg_id = Some x \<longrightarrow>
            deleteItem arg_id ctx w = (Inl (TypeError ''permissions''), w)) \<and>
         (query_item (db w) arg_id = None \<longrightarrow>
            deleteItem arg_id ctx w = (Inl (TypeError ''user''), w)) \<and>
         (\<exists>p. deleteItem arg_id ctx w = (Inl (TypeError p), w)) \<and>
         fst (deleteItem arg_id ctx w) \<noteq> Inl (Error ''You don't have permission to do that!'') \<and>
         (\<forall>err. fst (deleteItem arg_id ctx w) = Inl err \<longrightarrow> kind_of err \<noteq> Some AuthError)"
proof (cases "query_item (db w) arg_id")
  case None
  then have "deleteItem arg_id ctx w = (Inl (TypeError ''user''), w)"
    by (simp add: deleteItem_def)
  with None show ?thesis by simp
next
  case (Some x)
  then have "deleteItem arg_id ctx w = (Inl (TypeError ''permissions''), w)"
    using nouser by (simp add: deleteItem_def)
  with Some show ?thesis by simp
qed

theorem deleteItem_unauthenticated_witness:
  "user anonymous_request = None \<and> userId anonymous_request = None \<and>
   query_item (db example_world) ''A'' = Some item_A \<and>
   Some (item_user item_A) \<noteq> userId anonymous_request \<and>
   deleteItem ''A'' anonymous_request example_world = (Inl (TypeError ''permissions''), example_world)"
proof -
  have h: "user anonymous_request = None" by (simp add: anonymous_request_def)
  have h2: "userId anonymous_request = None" by (simp add: anonymous_request_def)
  have q: "query_item (db example_world) ''A'' = Some item_A"
    by (simp add: example_defs query_defs)
  have r: "deleteItem ''A'' anonymous_request example_world
      = (Inl (TypeError ''permissions''), example_world)"
    using deleteItem_unauthenticated [OF h, of example_world "''A''"] q by blast
  show ?thesis using h h2 q r by simp
qed

text \<open>With a user attached, the check is ownership or one of the permissions
  \<^verbatim>\<open>ADMIN\<close> and \<^verbatim>\<open>ITEMDELETE\<close>.\<close>

lemma deleteItem_with_user:
  assumes "query_item (db w) arg_id = Some x" "user ctx = Some u"
  shows "deleteItem arg_id ctx w =
     (if Some (item_user x) \<noteq> userId ctx \<and> ''ADMIN'' \<notin> set (user_permissions u) \<and>
         ''ITEMDELETE'' \<notin> set (user_permissions u)
      then (Inl (Error ''You don't have permission to do that!''), w)
      else (Inr x, w\<lparr>db := (db w)\<lparr>items :=
              delete_where (\<lambda>i. item_id i = arg_id) (items (db w))\<rparr>\<rparr>))"
  using assms
  by (auto simp: deleteItem_def mutation_deleteItem_def query_item_def list_ex_iff)

end
